theory Spec2Isabelle
  imports Main
begin

section \<open>Data model\<close>

text \<open>
  The visual query editor of the Greptime data source
  (\<^verbatim>\<open>src/components/QueryEditor/VisualQueryEditor.tsx\<close>) is a React function component.
  Every render reads the host's query object, fills in defaults, asks five hooks for
  memoised promises and hands event handlers to the segments it renders. The model
  below makes each of these effects explicit: query objects live in a store indexed by
  address, promises and arrays carry an identity drawn from a counter, backend requests
  are appended to a log, and the memo cells of \<^verbatim>\<open>useMemo\<close> are fields of the state.
\<close>

text \<open>\<^verbatim>\<open>FieldType\<close> of \<^verbatim>\<open>@grafana/data\<close>; the editor only tests for \<^verbatim>\<open>FieldType.time\<close>.\<close>

datatype FieldType =
  FT_time | FT_number | FT_string | FT_boolean | FT_trace | FT_geo | FT_enum
  | FT_other | FT_frame | FT_nestedFrames

text \<open>
  A column of a table as the client reports it. The type tags of the backend are declared
  outside this file of the repository, so they are a type parameter \<open>'ty\<close>, and
  \<^verbatim>\<open>mapGreptimeTypeToGrafana\<close> is a parameter of every function that calls it.
\<close>

record 'ty ColumnSchema =
  name :: string
  data_type :: 'ty

text \<open>
  \<^verbatim>\<open>SelectableValue<string>\<close>: both properties are optional in Grafana's type. The
  property \<^verbatim>\<open>value\<close> is the field \<open>val\<close> here.
\<close>

record SelectableValue =
  label :: "string option"
  val :: "string option"

text \<open>
  \<^verbatim>\<open>GreptimeQuery\<close>: the three properties the editor reads, each optional
  (\<open>None\<close> is \<^verbatim>\<open>undefined\<close> or absent, which the code never tells apart), and the
  remaining properties of the query (\<^verbatim>\<open>refId\<close> and the like) as a map from property
  name to a value of a type \<open>'v\<close> the editor never inspects.
\<close>

record 'v GreptimeQuery =
  fromTable :: "string option"
  timeColumn :: "string option"
  selectedColumns :: "string list option"
  others :: "string \<rightharpoonup> 'v"

text \<open>
  A key of \<^verbatim>\<open>GreptimeQuery\<close> together with a value of the type that key has: the two
  arguments of \<^verbatim>\<open>changeQueryByKey\<close>.
\<close>

datatype 'v field =
  FromTable "string option"
  | TimeColumn "string option"
  | SelectedColumns "string list option"
  | Other string "'v option"

text \<open>
  A settled promise either rejected with a reason or fulfilled with a value. The
  assertion \<^verbatim>\<open>select.value!\<close> has no run-time check; where it is violated an
  \<^verbatim>\<open>undefined\<close> would enter a \<^verbatim>\<open>string[]\<close>, which the model reports as
  \<open>UndefinedValue\<close>.
\<close>

datatype error = Rejected string | UndefinedValue

type_synonym 'a settled = "error + 'a"

text \<open>A promise: its identity as an object and the state it settles to.\<close>

record 'a promise =
  pid :: nat
  settled :: "'a settled"

text \<open>
  The client of the data source. \<open>client_id\<close> is its identity as an object, which is
  what a dependency array compares. The answer of the backend may differ from one call
  to the next, so each method takes the number of requests issued before it.
\<close>

record 'ty Client =
  client_id :: nat
  showTables :: "nat \<Rightarrow> string list settled"
  queryColumnSchemaOfTable :: "string \<Rightarrow> nat \<Rightarrow> 'ty ColumnSchema list settled"

record 'ty DataSource =
  client :: "'ty Client"

text \<open>
  The props of the component: the data source and the address of the host's query object.
  The callback \<^verbatim>\<open>onChange\<close> belongs to the host; a handler that calls it returns the
  address of the object it passes.
\<close>

record 'ty Props =
  datasource :: "'ty DataSource"
  query :: nat

datatype request = ShowTables nat | QueryColumnSchemaOfTable nat string

text \<open>
  The state a render runs in: the store of query objects, the counter of object
  identities, the log of backend requests, and one memo cell per \<^verbatim>\<open>useMemo\<close> call
  holding the last dependency array with the value computed for it.
\<close>

record ('ty, 'v) state =
  objs :: "nat \<Rightarrow> 'v GreptimeQuery"
  next_addr :: nat
  next_id :: nat
  requests :: "request list"
  h_getAllTables :: "(nat \<times> string list promise) option"
  h_getColumnSchema :: "((nat \<times> string option) \<times> 'ty ColumnSchema list promise) option"
  h_getTimeColumns :: "(nat \<times> SelectableValue list promise) option"
  h_unselectedColumnsSchemas :: "((nat \<times> nat) \<times> 'ty ColumnSchema list promise) option"

text \<open>
  What one render binds and its handlers close over: \<^verbatim>\<open>query\<close>, the destructured
  properties, \<^verbatim>\<open>selectedColumns\<close> (the selection followed by the entry of the add
  button) and the four memoised promises.
\<close>

record 'ty view =
  v_query :: nat
  v_fromTable :: "string option"
  v_timeColumn :: "string option"
  v_selectedColumns :: "string list"
  v_getAllTables :: "string list promise"
  v_getColumnSchema :: "'ty ColumnSchema list promise"
  v_getTimeColumns :: "SelectableValue list promise"
  v_unselectedColumnsSchemas :: "'ty ColumnSchema list promise"

section \<open>Option derivation\<close>

definition toOption :: "string \<Rightarrow> SelectableValue" where
  "toOption v = \<lparr>label = Some v, val = Some v\<rparr>"

text \<open>
  \<^verbatim>\<open>const x = await p; return k(x)\<close> inside an async function: a rejection of \<open>p\<close>
  rejects the function's own promise with the same reason.
\<close>

definition await :: "'a settled \<Rightarrow> ('a \<Rightarrow> 'b) \<Rightarrow> 'b settled" where
  "await p k = (case p of Inl e \<Rightarrow> Inl e | Inr x \<Rightarrow> Inr (k x))"

text \<open>\<^verbatim>\<open>Array.prototype.includes\<close> on strings: exact equality with some element.\<close>

definition includes_str :: "string list \<Rightarrow> string \<Rightarrow> bool" where
  "includes_str xs x \<longleftrightarrow> x \<in> set xs"

text \<open>\<^verbatim>\<open>handleLoadFromTables\<close>\<close>

definition handleLoadFromTables :: "'ty view \<Rightarrow> SelectableValue list settled" where
  "handleLoadFromTables v = await (settled (v_getAllTables v)) (\<lambda>tables. map toOption tables)"

text \<open>The async function memoised as \<^verbatim>\<open>getTimeColumns\<close>.\<close>

definition getTimeColumns_body ::
  "('ty \<Rightarrow> FieldType) \<Rightarrow> 'ty ColumnSchema list settled \<Rightarrow> SelectableValue list settled" where
  "getTimeColumns_body mapGreptimeTypeToGrafana getColumnSchema =
     await getColumnSchema (\<lambda>columns.
       map (\<lambda>column. toOption (name column))
         (filter (\<lambda>column. mapGreptimeTypeToGrafana (data_type column) = FT_time) columns))"

text \<open>
  \<^verbatim>\<open>(oriSelectedColumns ?? []).concat(['foobar'])\<close>: the last entry stands for the add
  button.
\<close>

definition selectedColumns_of :: "string list option \<Rightarrow> string list" where
  "selectedColumns_of oriSelectedColumns =
     (case oriSelectedColumns of None \<Rightarrow> [] | Some xs \<Rightarrow> xs) @ [''foobar'']"

text \<open>The async function memoised as \<^verbatim>\<open>unselectedColumnsSchemas\<close>.\<close>

definition unselectedColumnsSchemas_body ::
  "string list \<Rightarrow> 'ty ColumnSchema list settled \<Rightarrow> 'ty ColumnSchema list settled" where
  "unselectedColumnsSchemas_body selectedColumns' getColumnSchema =
     await getColumnSchema (\<lambda>columns.
       filter (\<lambda>column. \<not> includes_str selectedColumns' (name column)) columns)"

definition handleLoadUnselectedColumns :: "'ty view \<Rightarrow> SelectableValue list settled" where
  "handleLoadUnselectedColumns v =
     await (settled (v_unselectedColumnsSchemas v)) (\<lambda>columns.
       map (\<lambda>column. toOption (name column)) columns)"

definition handleLoadReselectColumns :: "'ty view \<Rightarrow> string \<Rightarrow> SelectableValue list settled" where
  "handleLoadReselectColumns v selfVal =
     await (handleLoadUnselectedColumns v) (\<lambda>unselected. [toOption selfVal] @ unselected)"

section \<open>The query object\<close>

text \<open>
  \<^verbatim>\<open>defaults(object, source)\<close> of lodash assigns to \<open>object\<close>, in place, every
  property of \<open>source\<close> that resolves to \<^verbatim>\<open>undefined\<close> in \<open>object\<close>, and returns
  \<open>object\<close>. \<open>defaults_fill\<close> is the content of the object afterwards. The objects
  of the store are writable: an object the host has frozen is not modelled, and the
  assignment would leave it as it is.
\<close>

definition defaults_fill :: "'v GreptimeQuery \<Rightarrow> 'v GreptimeQuery \<Rightarrow> 'v GreptimeQuery" where
  "defaults_fill object source =
     \<lparr>fromTable = (case fromTable object of None \<Rightarrow> fromTable source | Some x \<Rightarrow> Some x),
      timeColumn = (case timeColumn object of None \<Rightarrow> timeColumn source | Some x \<Rightarrow> Some x),
      selectedColumns =
        (case selectedColumns object of None \<Rightarrow> selectedColumns source | Some x \<Rightarrow> Some x),
      others = others source ++ others object\<rparr>"

definition defaults ::
  "nat \<Rightarrow> 'v GreptimeQuery \<Rightarrow> ('ty, 'v) state \<Rightarrow> nat \<times> ('ty, 'v) state" where
  "defaults object source s =
     (object, s\<lparr>objs := (objs s)(object := defaults_fill (objs s object) source)\<rparr>)"

text \<open>\<^verbatim>\<open>{ ...query, [key]: value }\<close>: a copy of the object with one property set.\<close>

fun spread_with :: "'v GreptimeQuery \<Rightarrow> 'v field \<Rightarrow> 'v GreptimeQuery" where
  "spread_with q (FromTable x) = q\<lparr>fromTable := x\<rparr>"
| "spread_with q (TimeColumn x) = q\<lparr>timeColumn := x\<rparr>"
| "spread_with q (SelectedColumns x) = q\<lparr>selectedColumns := x\<rparr>"
| "spread_with q (Other k x) = q\<lparr>others := (others q)(k := x)\<rparr>"

text \<open>The keys of a query, and the property read \<^verbatim>\<open>query[key]\<close>.\<close>

datatype key = K_fromTable | K_timeColumn | K_selectedColumns | K_other string

fun key_of :: "'v field \<Rightarrow> key" where
  "key_of (FromTable x) = K_fromTable"
| "key_of (TimeColumn x) = K_timeColumn"
| "key_of (SelectedColumns x) = K_selectedColumns"
| "key_of (Other k x) = K_other k"

fun get_prop :: "'v GreptimeQuery \<Rightarrow> key \<Rightarrow> 'v field" where
  "get_prop q K_fromTable = FromTable (fromTable q)"
| "get_prop q K_timeColumn = TimeColumn (timeColumn q)"
| "get_prop q K_selectedColumns = SelectedColumns (selectedColumns q)"
| "get_prop q (K_other k) = Other k (others q k)"

text \<open>
  \<^verbatim>\<open>changeQueryByKey\<close> builds a new object and passes it to \<^verbatim>\<open>onChange\<close>; the
  result is the address of that object and the state with the object in the store.
\<close>

definition changeQueryByKey ::
  "'ty view \<Rightarrow> 'v field \<Rightarrow> ('ty, 'v) state \<Rightarrow> nat \<times> ('ty, 'v) state" where
  "changeQueryByKey v kv s =
     (let a = next_addr s
      in (a, s\<lparr>objs := (objs s)(a := spread_with (objs s (v_query v)) kv),
               next_addr := Suc a\<rparr>))"

definition handleFromTableChange ::
  "'ty view \<Rightarrow> SelectableValue \<Rightarrow> ('ty, 'v) state \<Rightarrow> nat \<times> ('ty, 'v) state" where
  "handleFromTableChange v select s = changeQueryByKey v (FromTable (val select)) s"

definition handleTimeColumnChange ::
  "'ty view \<Rightarrow> SelectableValue \<Rightarrow> ('ty, 'v) state \<Rightarrow> nat \<times> ('ty, 'v) state" where
  "handleTimeColumnChange v select s = changeQueryByKey v (TimeColumn (val select)) s"

text \<open>\<^verbatim>\<open>xs.slice(0, -1)\<close>: all but the last element, and \<open>[]\<close> for \<open>[]\<close>.\<close>

definition slice_0_m1 :: "'a list \<Rightarrow> 'a list" where
  "slice_0_m1 xs = take (length xs - 1) xs"

definition handleAddColumn ::
  "'ty view \<Rightarrow> SelectableValue \<Rightarrow> ('ty, 'v) state \<Rightarrow> error + nat \<times> ('ty, 'v) state" where
  "handleAddColumn v select s =
     (case val select of
        None \<Rightarrow> Inl UndefinedValue
      | Some x \<Rightarrow>
          (let newSelectedColumns = slice_0_m1 (v_selectedColumns v) @ [x]
           in Inr (changeQueryByKey v (SelectedColumns (Some newSelectedColumns)) s)))"

text \<open>
  The \<^verbatim>\<open>onChange\<close> of the segment of an already selected column is
  \<^verbatim>\<open>() => { return; }\<close>: whatever is chosen in slot \<open>idx\<close>, it calls nothing and
  changes nothing. The result \<open>None\<close> says that \<^verbatim>\<open>onChange\<close> of the props was not
  called.
\<close>

definition segment_onChange ::
  "'ty view \<Rightarrow> nat \<Rightarrow> SelectableValue \<Rightarrow> ('ty, 'v) state \<Rightarrow> nat option \<times> ('ty, 'v) state" where
  "segment_onChange v idx select s = (None, s)"

text \<open>
  The host keeps the object it was last handed: after a gesture the query is the object
  passed to \<^verbatim>\<open>onChange\<close>, or the old one when \<^verbatim>\<open>onChange\<close> was not called.
\<close>

definition query_after :: "nat \<Rightarrow> nat option \<Rightarrow> nat" where
  "query_after old emitted = (case emitted of None \<Rightarrow> old | Some a \<Rightarrow> a)"

section \<open>Promises, backend requests and memo cells\<close>

definition new_promise :: "'a settled \<Rightarrow> ('ty, 'v) state \<Rightarrow> 'a promise \<times> ('ty, 'v) state" where
  "new_promise r s = (\<lparr>pid = next_id s, settled = r\<rparr>, s\<lparr>next_id := Suc (next_id s)\<rparr>)"

text \<open>\<^verbatim>\<open>Promise.resolve(x)\<close>\<close>

definition Promise_resolve :: "'a \<Rightarrow> ('ty, 'v) state \<Rightarrow> 'a promise \<times> ('ty, 'v) state" where
  "Promise_resolve x s = new_promise (Inr x) s"

text \<open>A call of a client method logs the request and returns a new promise.\<close>

definition client_showTables ::
  "'ty Client \<Rightarrow> ('ty, 'v) state \<Rightarrow> string list promise \<times> ('ty, 'v) state" where
  "client_showTables c s =
     new_promise (showTables c (length (requests s)))
       (s\<lparr>requests := requests s @ [ShowTables (client_id c)]\<rparr>)"

definition client_queryColumnSchemaOfTable ::
  "'ty Client \<Rightarrow> string \<Rightarrow> ('ty, 'v) state \<Rightarrow> 'ty ColumnSchema list promise \<times> ('ty, 'v) state" where
  "client_queryColumnSchemaOfTable c t s =
     new_promise (queryColumnSchemaOfTable c t (length (requests s)))
       (s\<lparr>requests := requests s @ [QueryColumnSchemaOfTable (client_id c) t]\<rparr>)"

text \<open>\<^verbatim>\<open>concat\<close> returns a new array: only its identity is allocated here.\<close>

definition new_array :: "('ty, 'v) state \<Rightarrow> nat \<times> ('ty, 'v) state" where
  "new_array s = (next_id s, s\<lparr>next_id := Suc (next_id s)\<rparr>)"

text \<open>
  \<^verbatim>\<open>useMemo(factory, deps)\<close> of React on one memo cell: the cached value when the
  dependencies are the same as at the last render (\<^verbatim>\<open>Object.is\<close> on each: identity for
  objects, equality for strings and \<^verbatim>\<open>undefined\<close>), otherwise the factory is run and
  its value stored with the new dependencies.
\<close>

definition useMemo ::
  "('d \<times> 'a) option \<Rightarrow> ('s \<Rightarrow> 'a \<times> 's) \<Rightarrow> 'd \<Rightarrow> 's \<Rightarrow> ('a \<times> ('d \<times> 'a) option) \<times> 's" where
  "useMemo cell factory deps s =
     (case cell of
        None \<Rightarrow> (let (x, s') = factory s in ((x, Some (deps, x)), s'))
      | Some (deps', x') \<Rightarrow>
          if deps' = deps then ((x', cell), s)
          else (let (x, s') = factory s in ((x, Some (deps, x)), s')))"

text \<open>The four \<^verbatim>\<open>useMemo\<close> calls of the component, each on its own cell.\<close>

definition use_getAllTables ::
  "'ty Client \<Rightarrow> ('ty, 'v) state \<Rightarrow> string list promise \<times> ('ty, 'v) state" where
  "use_getAllTables c s =
     (let ((x, cell), s') = useMemo (h_getAllTables s) (client_showTables c) (client_id c) s
      in (x, s'\<lparr>h_getAllTables := cell\<rparr>))"

text \<open>
  \<^verbatim>\<open>fromTable ? client.queryColumnSchemaOfTable(fromTable) : Promise.resolve([])\<close>:
  \<^verbatim>\<open>undefined\<close> and the empty string are falsy.
\<close>

definition getColumnSchema_factory ::
  "'ty Client \<Rightarrow> string option \<Rightarrow> ('ty, 'v) state \<Rightarrow> 'ty ColumnSchema list promise \<times> ('ty, 'v) state" where
  "getColumnSchema_factory c fromTable' s =
     (case fromTable' of
        None \<Rightarrow> Promise_resolve [] s
      | Some t \<Rightarrow> if t = [] then Promise_resolve [] s else client_queryColumnSchemaOfTable c t s)"

definition use_getColumnSchema ::
  "'ty Client \<Rightarrow> string option \<Rightarrow> ('ty, 'v) state \<Rightarrow> 'ty ColumnSchema list promise \<times> ('ty, 'v) state" where
  "use_getColumnSchema c fromTable' s =
     (let ((x, cell), s') =
            useMemo (h_getColumnSchema s) (getColumnSchema_factory c fromTable')
              (client_id c, fromTable') s
      in (x, s'\<lparr>h_getColumnSchema := cell\<rparr>))"

definition use_getTimeColumns ::
  "('ty \<Rightarrow> FieldType) \<Rightarrow> 'ty ColumnSchema list promise \<Rightarrow> ('ty, 'v) state
     \<Rightarrow> SelectableValue list promise \<times> ('ty, 'v) state" where
  "use_getTimeColumns mapGreptimeTypeToGrafana getColumnSchema s =
     (let ((x, cell), s') =
            useMemo (h_getTimeColumns s)
              (new_promise (getTimeColumns_body mapGreptimeTypeToGrafana (settled getColumnSchema)))
              (pid getColumnSchema) s
      in (x, s'\<lparr>h_getTimeColumns := cell\<rparr>))"

text \<open>
  The second dependency is the array \<^verbatim>\<open>selectedColumns\<close> itself, compared by
  identity: \<open>arr\<close> is the identity of the array this render built, \<open>selectedColumns'\<close>
  its content.
\<close>

definition use_unselectedColumnsSchemas ::
  "'ty ColumnSchema list promise \<Rightarrow> nat \<Rightarrow> string list \<Rightarrow> ('ty, 'v) state
     \<Rightarrow> 'ty ColumnSchema list promise \<times> ('ty, 'v) state" where
  "use_unselectedColumnsSchemas getColumnSchema arr selectedColumns' s =
     (let ((x, cell), s') =
            useMemo (h_unselectedColumnsSchemas s)
              (new_promise (unselectedColumnsSchemas_body selectedColumns' (settled getColumnSchema)))
              (pid getColumnSchema, arr) s
      in (x, s'\<lparr>h_unselectedColumnsSchemas := cell\<rparr>))"

section \<open>The component\<close>

text \<open>
  One render of \<^verbatim>\<open>VisualQueryEditor\<close>, in the order of the source. The constant
  \<^verbatim>\<open>defaultQuery\<close> is declared in another file of the repository and is a parameter.
\<close>

definition VisualQueryEditor ::
  "('ty \<Rightarrow> FieldType) \<Rightarrow> 'v GreptimeQuery \<Rightarrow> 'ty Props \<Rightarrow> ('ty, 'v) state
     \<Rightarrow> 'ty view \<times> ('ty, 'v) state" where
  "VisualQueryEditor mapGreptimeTypeToGrafana defaultQuery props s0 =
     (let client' = client (datasource props);
          oriQuery = query props;
          (query', s1) = defaults oriQuery defaultQuery s0;
          fromTable' = fromTable (objs s1 query');
          timeColumn' = timeColumn (objs s1 query');
          oriSelectedColumns = selectedColumns (objs s1 query');
          (getAllTables, s2) = use_getAllTables client' s1;
          (getColumnSchema, s3) = use_getColumnSchema client' fromTable' s2;
          (getTimeColumns, s4) = use_getTimeColumns mapGreptimeTypeToGrafana getColumnSchema s3;
          (arr, s5) = new_array s4;
          selectedColumns' = selectedColumns_of oriSelectedColumns;
          (unselectedColumnsSchemas, s6) =
             use_unselectedColumnsSchemas getColumnSchema arr selectedColumns' s5
      in (\<lparr>v_query = query',
           v_fromTable = fromTable',
           v_timeColumn = timeColumn',
           v_selectedColumns = selectedColumns',
           v_getAllTables = getAllTables,
           v_getColumnSchema = getColumnSchema,
           v_getTimeColumns = getTimeColumns,
           v_unselectedColumnsSchemas = unselectedColumnsSchemas\<rparr>, s6))"

text \<open>The state of a component that has not rendered yet: every memo cell is empty.\<close>

definition mount ::
  "(nat \<Rightarrow> 'v GreptimeQuery) \<Rightarrow> nat \<Rightarrow> nat \<Rightarrow> request list \<Rightarrow> ('ty, 'v) state" where
  "mount h a i rs =
     \<lparr>objs = h, next_addr = a, next_id = i, requests = rs,
      h_getAllTables = None, h_getColumnSchema = None,
      h_getTimeColumns = None, h_unselectedColumnsSchemas = None\<rparr>"

text \<open>
  The states the component can be in: it mounts, then renders with whatever props the
  host passes, and between renders its handlers run.
\<close>

inductive reachable ::
  "('ty \<Rightarrow> FieldType) \<Rightarrow> 'v GreptimeQuery \<Rightarrow> ('ty, 'v) state \<Rightarrow> bool"
  for mapGreptimeTypeToGrafana :: "'ty \<Rightarrow> FieldType" and defaultQuery :: "'v GreptimeQuery" where
  reachable_mount: "reachable mapGreptimeTypeToGrafana defaultQuery (mount h a i rs)"
| reachable_render:
    "reachable mapGreptimeTypeToGrafana defaultQuery s \<Longrightarrow>
     reachable mapGreptimeTypeToGrafana defaultQuery
       (snd (VisualQueryEditor mapGreptimeTypeToGrafana defaultQuery props s))"
| reachable_change:
    "reachable mapGreptimeTypeToGrafana defaultQuery s \<Longrightarrow>
     reachable mapGreptimeTypeToGrafana defaultQuery (snd (changeQueryByKey v kv s))"

section \<open>The invariant of the memo cells\<close>

text \<open>
  What holds of the memo cells in every reachable state: every identity stored in a cell
  is older than the counter; a column promise cached for a falsy table is the resolved
  empty list; the cached time options were computed from the column promise whose
  identity is their dependency.
\<close>

definition hooks_ok :: "('ty \<Rightarrow> FieldType) \<Rightarrow> ('ty, 'v) state \<Rightarrow> bool" where
  "hooks_ok m s \<longleftrightarrow>
     (case h_getAllTables s of None \<Rightarrow> True | Some (k, p) \<Rightarrow> pid p < next_id s) \<and>
     (case h_getColumnSchema s of None \<Rightarrow> True
      | Some ((cid, ft), p) \<Rightarrow>
          pid p < next_id s \<and> ((ft = None \<or> ft = Some []) \<longrightarrow> settled p = Inr [])) \<and>
     (case h_getTimeColumns s of None \<Rightarrow> True
      | Some (d, p) \<Rightarrow>
          d < next_id s \<and> pid p < next_id s \<and>
          (case h_getColumnSchema s of None \<Rightarrow> True
           | Some (k, cp) \<Rightarrow> pid cp = d \<longrightarrow> settled p = getTimeColumns_body m (settled cp))) \<and>
     (case h_unselectedColumnsSchemas s of None \<Rightarrow> True
      | Some ((d, a), p) \<Rightarrow> d < next_id s \<and> a < next_id s \<and> pid p < next_id s)"

section \<open>The option lists as the specification words them\<close>

text \<open>
  \<open>timeColumnOptions\<close>: one option per column whose type classifies as time, other
  columns left out, in the order of the columns.
\<close>

fun timeColumnOptions_spec ::
  "('ty \<Rightarrow> FieldType) \<Rightarrow> 'ty ColumnSchema list \<Rightarrow> SelectableValue list" where
  "timeColumnOptions_spec classify [] = []"
| "timeColumnOptions_spec classify (c # cs) =
     (if classify (data_type c) = FT_time
      then \<lparr>label = Some (name c), val = Some (name c)\<rparr> # timeColumnOptions_spec classify cs
      else timeColumnOptions_spec classify cs)"

text \<open>
  \<open>unselectedColumnOptions\<close>: one option per column whose name is not already present
  in the selection.
\<close>

fun unselectedColumnOptions_spec ::
  "'ty ColumnSchema list \<Rightarrow> string list \<Rightarrow> SelectableValue list" where
  "unselectedColumnOptions_spec [] selected = []"
| "unselectedColumnOptions_spec (c # cs) selected =
     (if name c \<in> set selected then unselectedColumnOptions_spec cs selected
      else \<lparr>label = Some (name c), val = Some (name c)\<rparr> # unselectedColumnOptions_spec cs selected)"

section \<open>Example inputs\<close>

text \<open>
  A table \<open>metrics\<close> with a time column, a float column and a column that happens to be
  called \<open>foobar\<close>; a classification of its type tags; a query on that table at
  address 0 and empty queries elsewhere; a \<^verbatim>\<open>defaultQuery\<close> that gives a new query an
  empty selection.
\<close>

definition ex_classify :: "string \<Rightarrow> FieldType" where
  "ex_classify t = (if t = ''timestamp'' then FT_time else FT_number)"

definition ex_columns :: "string ColumnSchema list" where
  "ex_columns =
     [\<lparr>name = ''ts'', data_type = ''timestamp''\<rparr>,
      \<lparr>name = ''cpu'', data_type = ''float64''\<rparr>,
      \<lparr>name = ''foobar'', data_type = ''float64''\<rparr>]"

definition ex_client :: "string Client" where
  "ex_client =
     \<lparr>client_id = 1,
      showTables = (\<lambda>n. Inr [''metrics'']),
      queryColumnSchemaOfTable =
        (\<lambda>t n. if t = ''metrics'' then Inr ex_columns else Inl (Rejected ''no such table''))\<rparr>"

definition ex_props :: "nat \<Rightarrow> string Props" where
  "ex_props a = \<lparr>datasource = \<lparr>client = ex_client\<rparr>, query = a\<rparr>"

definition ex_query :: "unit GreptimeQuery" where
  "ex_query =
     \<lparr>fromTable = Some ''metrics'', timeColumn = None, selectedColumns = Some [''cpu''],
      others = Map.empty\<rparr>"

definition ex_empty :: "unit GreptimeQuery" where
  "ex_empty =
     \<lparr>fromTable = None, timeColumn = None, selectedColumns = None, others = Map.empty\<rparr>"

definition ex_defaultQuery :: "unit GreptimeQuery" where
  "ex_defaultQuery =
     \<lparr>fromTable = None, timeColumn = None, selectedColumns = Some [], others = Map.empty\<rparr>"

definition ex_state :: "(string, unit) state" where
  "ex_state = mount (\<lambda>a. if a = 0 then ex_query else ex_empty) 2 0 []"

text \<open>The first render of the example and the state it leaves.\<close>

definition ex_view :: "string view" where
  "ex_view = fst (VisualQueryEditor ex_classify ex_defaultQuery (ex_props 0) ex_state)"

definition ex_rendered :: "(string, unit) state" where
  "ex_rendered = snd (VisualQueryEditor ex_classify ex_defaultQuery (ex_props 0) ex_state)"

text \<open>A mounted editor whose query names a table the backend does not have.\<close>

definition ex_state_logs :: "(string, unit) state" where
  "ex_state_logs = mount (\<lambda>a. ex_query\<lparr>fromTable := Some ''logs''\<rparr>) 1 0 []"

section \<open>Lemmas on the hooks and on one render\<close>

lemmas effect_defs =
  new_promise_def Promise_resolve_def client_showTables_def
  client_queryColumnSchemaOfTable_def new_array_def getColumnSchema_factory_def

lemma hooks_ok_mount: "hooks_ok m (mount h a i rs)"
  by (simp add: hooks_ok_def mount_def)

lemma hooks_ok_defaults: "hooks_ok m (snd (defaults a d s)) = hooks_ok m s"
  by (simp add: hooks_ok_def defaults_def cong: option.case_cong prod.case_cong)

lemma hooks_ok_change: "hooks_ok m (snd (changeQueryByKey v kv s)) = hooks_ok m s"
  by (simp add: hooks_ok_def changeQueryByKey_def Let_def cong: option.case_cong prod.case_cong)

lemma hooks_ok_getAllTables: "hooks_ok m s \<Longrightarrow> hooks_ok m (snd (use_getAllTables c s))"
  by (auto simp: hooks_ok_def use_getAllTables_def useMemo_def effect_defs
      split: option.splits prod.splits if_splits)

lemma hooks_ok_getColumnSchema:
  "hooks_ok m s \<Longrightarrow> hooks_ok m (snd (use_getColumnSchema c ft s))"
  by (auto simp: hooks_ok_def use_getColumnSchema_def useMemo_def effect_defs
      split: option.splits prod.splits if_splits)

lemma hooks_ok_getTimeColumns:
  "hooks_ok m s \<Longrightarrow> h_getColumnSchema s = Some (k, cp) \<Longrightarrow>
   hooks_ok m (snd (use_getTimeColumns m cp s))"
  by (auto simp: hooks_ok_def use_getTimeColumns_def useMemo_def effect_defs
      split: option.splits prod.splits if_splits)

lemma hooks_ok_new_array: "hooks_ok m s \<Longrightarrow> hooks_ok m (snd (new_array s))"
  by (auto simp: hooks_ok_def effect_defs split: option.splits prod.splits if_splits)

lemma hooks_ok_unselected:
  "hooks_ok m s \<Longrightarrow> pid cp < next_id s \<Longrightarrow> arr < next_id s \<Longrightarrow>
   hooks_ok m (snd (use_unselectedColumnsSchemas cp arr sel s))"
  by (auto simp: hooks_ok_def use_unselectedColumnsSchemas_def useMemo_def effect_defs
      split: option.splits prod.splits if_splits)

lemmas ex_defs = ex_classify_def ex_columns_def ex_client_def ex_props_def ex_query_def ex_empty_def
  ex_defaultQuery_def ex_state_def

lemmas render_defs = VisualQueryEditor_def defaults_def defaults_fill_def use_getAllTables_def
  use_getColumnSchema_def use_getTimeColumns_def use_unselectedColumnsSchemas_def useMemo_def
  effect_defs mount_def selectedColumns_of_def getTimeColumns_body_def
  unselectedColumnsSchemas_body_def await_def includes_str_def toOption_def

lemma getAllTables_frame:
  "objs (snd (use_getAllTables c s)) = objs s"
  "next_addr (snd (use_getAllTables c s)) = next_addr s"
  "h_getColumnSchema (snd (use_getAllTables c s)) = h_getColumnSchema s"
  "h_getTimeColumns (snd (use_getAllTables c s)) = h_getTimeColumns s"
  "h_unselectedColumnsSchemas (snd (use_getAllTables c s)) = h_unselectedColumnsSchemas s"
  "h_getAllTables (snd (use_getAllTables c s)) = Some (client_id c, fst (use_getAllTables c s))"
  by (auto simp: use_getAllTables_def useMemo_def effect_defs
      split: option.splits prod.splits if_splits)

lemma getColumnSchema_frame:
  "objs (snd (use_getColumnSchema c ft s)) = objs s"
  "next_addr (snd (use_getColumnSchema c ft s)) = next_addr s"
  "h_getAllTables (snd (use_getColumnSchema c ft s)) = h_getAllTables s"
  "h_getTimeColumns (snd (use_getColumnSchema c ft s)) = h_getTimeColumns s"
  "h_unselectedColumnsSchemas (snd (use_getColumnSchema c ft s)) = h_unselectedColumnsSchemas s"
  "h_getColumnSchema (snd (use_getColumnSchema c ft s))
     = Some ((client_id c, ft), fst (use_getColumnSchema c ft s))"
  by (auto simp: use_getColumnSchema_def useMemo_def effect_defs
      split: option.splits prod.splits if_splits)

lemma getTimeColumns_frame:
  "objs (snd (use_getTimeColumns m cp s)) = objs s"
  "next_addr (snd (use_getTimeColumns m cp s)) = next_addr s"
  "requests (snd (use_getTimeColumns m cp s)) = requests s"
  "h_getAllTables (snd (use_getTimeColumns m cp s)) = h_getAllTables s"
  "h_getColumnSchema (snd (use_getTimeColumns m cp s)) = h_getColumnSchema s"
  "h_unselectedColumnsSchemas (snd (use_getTimeColumns m cp s)) = h_unselectedColumnsSchemas s"
  by (auto simp: use_getTimeColumns_def useMemo_def effect_defs
      split: option.splits prod.splits if_splits)

lemma new_array_frame:
  "objs (snd (new_array s)) = objs s"
  "next_addr (snd (new_array s)) = next_addr s"
  "requests (snd (new_array s)) = requests s"
  "h_getAllTables (snd (new_array s)) = h_getAllTables s"
  "h_getColumnSchema (snd (new_array s)) = h_getColumnSchema s"
  "h_getTimeColumns (snd (new_array s)) = h_getTimeColumns s"
  "h_unselectedColumnsSchemas (snd (new_array s)) = h_unselectedColumnsSchemas s"
  "fst (new_array s) = next_id s"
  "next_id (snd (new_array s)) = Suc (next_id s)"
  by (simp_all add: new_array_def)

lemma unselected_frame:
  "objs (snd (use_unselectedColumnsSchemas cp arr sel s)) = objs s"
  "next_addr (snd (use_unselectedColumnsSchemas cp arr sel s)) = next_addr s"
  "requests (snd (use_unselectedColumnsSchemas cp arr sel s)) = requests s"
  "h_getAllTables (snd (use_unselectedColumnsSchemas cp arr sel s)) = h_getAllTables s"
  "h_getColumnSchema (snd (use_unselectedColumnsSchemas cp arr sel s)) = h_getColumnSchema s"
  "h_getTimeColumns (snd (use_unselectedColumnsSchemas cp arr sel s)) = h_getTimeColumns s"
  by (auto simp: use_unselectedColumnsSchemas_def useMemo_def effect_defs
      split: option.splits prod.splits if_splits)

lemma getColumnSchema_falsy:
  "hooks_ok m s \<Longrightarrow> ft = None \<or> ft = Some [] \<Longrightarrow>
   settled (fst (use_getColumnSchema c ft s)) = Inr []"
  by (auto simp: hooks_ok_def use_getColumnSchema_def useMemo_def effect_defs
      split: option.splits prod.splits if_splits)

lemma getColumnSchema_pid:
  "hooks_ok m s \<Longrightarrow>
   pid (fst (use_getColumnSchema c ft s)) < next_id (snd (use_getColumnSchema c ft s))"
  by (auto simp: hooks_ok_def use_getColumnSchema_def useMemo_def effect_defs
      split: option.splits prod.splits if_splits)

lemma getTimeColumns_settled:
  "hooks_ok m s \<Longrightarrow> h_getColumnSchema s = Some (k, cp) \<Longrightarrow>
   settled (fst (use_getTimeColumns m cp s)) = getTimeColumns_body m (settled cp)"
  by (auto simp: hooks_ok_def use_getTimeColumns_def useMemo_def effect_defs
      split: option.splits prod.splits if_splits)

lemma getTimeColumns_next_id:
  "next_id s \<le> next_id (snd (use_getTimeColumns m cp s))"
  by (auto simp: use_getTimeColumns_def useMemo_def effect_defs
      split: option.splits prod.splits if_splits)

lemma unselected_settled:
  "hooks_ok m s \<Longrightarrow>
   settled (fst (use_unselectedColumnsSchemas cp (next_id s) sel (snd (new_array s))))
     = unselectedColumnsSchemas_body sel (settled cp)"
  by (auto simp: hooks_ok_def use_unselectedColumnsSchemas_def useMemo_def effect_defs
      split: option.splits prod.splits if_splits)

lemma render_unfold:
  "VisualQueryEditor m dq props s =
     (let c = client (datasource props);
          s1 = snd (defaults (query props) dq s);
          q = objs s1 (query props);
          s2 = snd (use_getAllTables c s1);
          cp = fst (use_getColumnSchema c (fromTable q) s2);
          s3 = snd (use_getColumnSchema c (fromTable q) s2);
          s4 = snd (use_getTimeColumns m cp s3);
          sel = selectedColumns_of (selectedColumns q)
      in (\<lparr>v_query = query props,
           v_fromTable = fromTable q,
           v_timeColumn = timeColumn q,
           v_selectedColumns = sel,
           v_getAllTables = fst (use_getAllTables c s1),
           v_getColumnSchema = cp,
           v_getTimeColumns = fst (use_getTimeColumns m cp s3),
           v_unselectedColumnsSchemas =
             fst (use_unselectedColumnsSchemas cp (next_id s4) sel (snd (new_array s4)))\<rparr>,
          snd (use_unselectedColumnsSchemas cp (next_id s4) sel (snd (new_array s4)))))"
  by (simp add: VisualQueryEditor_def Let_def split_beta defaults_def new_array_frame)

lemma hooks_ok_render:
  assumes "hooks_ok m s"
  shows "hooks_ok m (snd (VisualQueryEditor m dq props s))"
proof -
  define c where "c = client (datasource props)"
  define s1 where "s1 = snd (defaults (query props) dq s)"
  define ft where "ft = fromTable (objs s1 (query props))"
  define s2 where "s2 = snd (use_getAllTables c s1)"
  define cp where "cp = fst (use_getColumnSchema c ft s2)"
  define s3 where "s3 = snd (use_getColumnSchema c ft s2)"
  define s4 where "s4 = snd (use_getTimeColumns m cp s3)"
  define sel where "sel = selectedColumns_of (selectedColumns (objs s1 (query props)))"
  have ok1: "hooks_ok m s1" using assms by (simp add: s1_def hooks_ok_defaults)
  have ok2: "hooks_ok m s2" using ok1 by (simp add: s2_def hooks_ok_getAllTables)
  have ok3: "hooks_ok m s3" using ok2 by (simp add: s3_def hooks_ok_getColumnSchema)
  have cell3: "h_getColumnSchema s3 = Some ((client_id c, ft), cp)"
    by (simp add: s3_def cp_def getColumnSchema_frame)
  have ok4: "hooks_ok m s4" using ok3 cell3 by (simp add: s4_def hooks_ok_getTimeColumns)
  have ok5: "hooks_ok m (snd (new_array s4))" using ok4 by (rule hooks_ok_new_array)
  have "pid cp < next_id s3" using ok2 by (simp add: cp_def s3_def getColumnSchema_pid)
  also have "\<dots> \<le> next_id s4" by (simp add: s4_def getTimeColumns_next_id)
  finally have pid5: "pid cp < next_id (snd (new_array s4))" by (simp add: new_array_frame)
  have "hooks_ok m (snd (use_unselectedColumnsSchemas cp (next_id s4) sel (snd (new_array s4))))"
    using ok5 pid5 by (rule hooks_ok_unselected) (simp add: new_array_frame)
  then show ?thesis
    by (simp add: render_unfold Let_def c_def s1_def ft_def s2_def cp_def s3_def s4_def sel_def)
qed

lemma reachable_hooks_ok: "reachable m dq s \<Longrightarrow> hooks_ok m s"
  by (induction rule: reachable.induct)
    (simp_all add: hooks_ok_mount hooks_ok_render hooks_ok_change)

lemma defaults_frame:
  "objs (snd (defaults a d s)) = (objs s)(a := defaults_fill (objs s a) d)"
  "next_addr (snd (defaults a d s)) = next_addr s"
  "next_id (snd (defaults a d s)) = next_id s"
  "requests (snd (defaults a d s)) = requests s"
  "h_getAllTables (snd (defaults a d s)) = h_getAllTables s"
  "h_getColumnSchema (snd (defaults a d s)) = h_getColumnSchema s"
  "h_getTimeColumns (snd (defaults a d s)) = h_getTimeColumns s"
  "h_unselectedColumnsSchemas (snd (defaults a d s)) = h_unselectedColumnsSchemas s"
  by (simp_all add: defaults_def)

lemma getAllTables_hit:
  "h_getAllTables s = Some (client_id c, p) \<Longrightarrow> use_getAllTables c s = (p, s)"
  by (simp add: use_getAllTables_def useMemo_def)

lemma getAllTables_miss:
  "h_getAllTables s = Some (k, p) \<Longrightarrow> k \<noteq> client_id c \<Longrightarrow>
   pid (fst (use_getAllTables c s)) = next_id s"
  by (simp add: use_getAllTables_def useMemo_def effect_defs)

lemma getAllTables_next_id: "next_id s \<le> next_id (snd (use_getAllTables c s))"
  by (auto simp: use_getAllTables_def useMemo_def effect_defs
      split: option.splits prod.splits if_splits)

lemma getColumnSchema_hit:
  "h_getColumnSchema s = Some ((client_id c, ft), p) \<Longrightarrow> use_getColumnSchema c ft s = (p, s)"
  by (simp add: use_getColumnSchema_def useMemo_def)

lemma getColumnSchema_miss:
  "h_getColumnSchema s = Some (k, p) \<Longrightarrow> k \<noteq> (client_id c, ft) \<Longrightarrow>
   pid (fst (use_getColumnSchema c ft s)) = next_id s"
  by (auto simp: use_getColumnSchema_def useMemo_def effect_defs split: option.splits)

lemma render_view:
  assumes ok: "hooks_ok m s" and r: "VisualQueryEditor m dq props s = (v, s')"
  shows "v_query v = query props"
    and "objs s' = (objs s)(query props := defaults_fill (objs s (query props)) dq)"
    and "next_addr s' = next_addr s"
    and "v_fromTable v = fromTable (objs s' (query props))"
    and "v_timeColumn v = timeColumn (objs s' (query props))"
    and "v_selectedColumns v = selectedColumns_of (selectedColumns (objs s' (query props)))"
    and "settled (v_getTimeColumns v) = getTimeColumns_body m (settled (v_getColumnSchema v))"
    and "settled (v_unselectedColumnsSchemas v)
           = unselectedColumnsSchemas_body (v_selectedColumns v) (settled (v_getColumnSchema v))"
    and "v_fromTable v = None \<or> v_fromTable v = Some [] \<Longrightarrow>
           settled (v_getColumnSchema v) = Inr []"
proof -
  define c where "c = client (datasource props)"
  define s1 where "s1 = snd (defaults (query props) dq s)"
  define ft where "ft = fromTable (objs s1 (query props))"
  define s2 where "s2 = snd (use_getAllTables c s1)"
  define cp where "cp = fst (use_getColumnSchema c ft s2)"
  define s3 where "s3 = snd (use_getColumnSchema c ft s2)"
  define s4 where "s4 = snd (use_getTimeColumns m cp s3)"
  define sel where "sel = selectedColumns_of (selectedColumns (objs s1 (query props)))"
  note defs = c_def s1_def ft_def s2_def cp_def s3_def s4_def sel_def
  have v: "v = \<lparr>v_query = query props, v_fromTable = ft,
       v_timeColumn = timeColumn (objs s1 (query props)), v_selectedColumns = sel,
       v_getAllTables = fst (use_getAllTables c s1), v_getColumnSchema = cp,
       v_getTimeColumns = fst (use_getTimeColumns m cp s3),
       v_unselectedColumnsSchemas =
         fst (use_unselectedColumnsSchemas cp (next_id s4) sel (snd (new_array s4)))\<rparr>"
    and s': "s' = snd (use_unselectedColumnsSchemas cp (next_id s4) sel (snd (new_array s4)))"
    using r by (simp_all add: render_unfold Let_def defs)
  have objs': "objs s' = objs s1"
    by (simp add: s' unselected_frame new_array_frame s4_def getTimeColumns_frame s3_def
        getColumnSchema_frame s2_def getAllTables_frame)
  have ok1: "hooks_ok m s1" using ok by (simp add: s1_def hooks_ok_defaults)
  have ok2: "hooks_ok m s2" using ok1 by (simp add: s2_def hooks_ok_getAllTables)
  have ok3: "hooks_ok m s3" using ok2 by (simp add: s3_def hooks_ok_getColumnSchema)
  have cell3: "h_getColumnSchema s3 = Some ((client_id c, ft), cp)"
    by (simp add: s3_def cp_def getColumnSchema_frame)
  have ok4: "hooks_ok m s4" using ok3 cell3 by (simp add: s4_def hooks_ok_getTimeColumns)
  show "v_query v = query props" by (simp add: v)
  show "objs s' = (objs s)(query props := defaults_fill (objs s (query props)) dq)"
    by (simp add: objs' s1_def defaults_frame)
  show "next_addr s' = next_addr s"
    by (simp add: s' unselected_frame new_array_frame s4_def getTimeColumns_frame s3_def
        getColumnSchema_frame s2_def getAllTables_frame s1_def defaults_frame)
  show "v_fromTable v = fromTable (objs s' (query props))" by (simp add: v objs' ft_def)
  show "v_timeColumn v = timeColumn (objs s' (query props))" by (simp add: v objs')
  show "v_selectedColumns v = selectedColumns_of (selectedColumns (objs s' (query props)))"
    by (simp add: v objs' sel_def)
  show "settled (v_getTimeColumns v) = getTimeColumns_body m (settled (v_getColumnSchema v))"
    using getTimeColumns_settled [OF ok3 cell3] by (simp add: v)
  show "settled (v_unselectedColumnsSchemas v)
          = unselectedColumnsSchemas_body (v_selectedColumns v) (settled (v_getColumnSchema v))"
    using unselected_settled [OF ok4] by (simp add: v)
  show "settled (v_getColumnSchema v) = Inr []"
    if "v_fromTable v = None \<or> v_fromTable v = Some []"
    using that getColumnSchema_falsy [OF ok2, of ft c] by (simp add: v cp_def)
qed

lemma render_cells:
  assumes r: "VisualQueryEditor m dq props s = (v, s')"
  shows "h_getAllTables s' = Some (client_id (client (datasource props)), v_getAllTables v)"
    and "h_getColumnSchema s'
           = Some ((client_id (client (datasource props)), v_fromTable v), v_getColumnSchema v)"
  using r
  by (auto simp: render_unfold Let_def unselected_frame new_array_frame getTimeColumns_frame
      getColumnSchema_frame getAllTables_frame)

lemma render_tables_hit:
  assumes "h_getAllTables s = Some (client_id (client (datasource props)), p)"
    and "VisualQueryEditor m dq props s = (v, s')"
  shows "v_getAllTables v = p"
  using assms getAllTables_hit [of "snd (defaults (query props) dq s)" "client (datasource props)" p]
  by (auto simp: render_unfold Let_def defaults_frame)

lemma render_tables_miss:
  assumes "hooks_ok m s" and "h_getAllTables s = Some (k, p)"
    and "k \<noteq> client_id (client (datasource props))"
    and "VisualQueryEditor m dq props s = (v, s')"
  shows "pid p < pid (v_getAllTables v)"
proof -
  have "pid p < next_id s" using assms(1,2) by (simp add: hooks_ok_def)
  moreover have "pid (v_getAllTables v) = next_id s"
    using assms(2-4)
      getAllTables_miss [of "snd (defaults (query props) dq s)" k p "client (datasource props)"]
    by (auto simp: render_unfold Let_def defaults_frame)
  ultimately show ?thesis by simp
qed

lemma render_columns_hit:
  assumes "h_getColumnSchema s = Some ((client_id (client (datasource props)), ft), p)"
    and "VisualQueryEditor m dq props s = (v, s')"
    and "v_fromTable v = ft"
  shows "v_getColumnSchema v = p"
  using assms
    getColumnSchema_hit [of "snd (use_getAllTables (client (datasource props))
        (snd (defaults (query props) dq s)))" "client (datasource props)" ft p]
  by (auto simp: render_unfold Let_def defaults_frame getAllTables_frame)

lemma render_columns_miss:
  assumes "hooks_ok m s" and "h_getColumnSchema s = Some (k, p)"
    and "k \<noteq> (client_id (client (datasource props)), v_fromTable v)"
    and "VisualQueryEditor m dq props s = (v, s')"
  shows "pid p < pid (v_getColumnSchema v)"
proof -
  define s2 where "s2 = snd (use_getAllTables (client (datasource props))
        (snd (defaults (query props) dq s)))"
  have "pid p < next_id s" using assms(1,2) by (simp add: hooks_ok_def)
  also have "next_id s \<le> next_id s2"
    using getAllTables_next_id [of "snd (defaults (query props) dq s)"]
    by (simp add: s2_def defaults_frame)
  finally have "pid p < next_id s2" .
  moreover have "h_getColumnSchema s2 = Some (k, p)"
    using assms(2) by (simp add: s2_def getAllTables_frame defaults_frame)
  then have "pid (v_getColumnSchema v) = next_id s2"
    using assms(3,4) getColumnSchema_miss [of s2 k p "client (datasource props)" "v_fromTable v"]
    by (auto simp: render_unfold Let_def s2_def)
  ultimately show ?thesis by simp
qed

lemma render_requests_hit:
  assumes "h_getAllTables s = Some (client_id (client (datasource props)), p)"
    and "h_getColumnSchema s = Some ((client_id (client (datasource props)), ft), cp)"
    and "VisualQueryEditor m dq props s = (v, s')"
    and "v_fromTable v = ft"
  shows "requests s' = requests s"
  using assms
    getAllTables_hit [of "snd (defaults (query props) dq s)" "client (datasource props)" p]
    getColumnSchema_hit [of "snd (defaults (query props) dq s)" "client (datasource props)" ft cp]
  by (auto simp: render_unfold Let_def defaults_frame unselected_frame new_array_frame
      getTimeColumns_frame)

section \<open>Properties of the option lists\<close>

lemma timeColumnOptions_spec_eq:
  "timeColumnOptions_spec m columns
     = map (\<lambda>c. toOption (name c)) (filter (\<lambda>c. m (data_type c) = FT_time) columns)"
  by (induction columns) (simp_all add: toOption_def)

lemma unselected_options:
  assumes "hooks_ok m s" and "VisualQueryEditor m dq props s = (v, s')"
    and "settled (v_getColumnSchema v) = Inr columns"
  shows "handleLoadUnselectedColumns v
     = Inr (map (\<lambda>c. toOption (name c))
         (filter (\<lambda>c. name c \<notin> set (v_selectedColumns v)) columns))"
  using render_view(8) [OF assms(1,2)] assms(3)
  by (simp add: handleLoadUnselectedColumns_def unselectedColumnsSchemas_body_def await_def
      includes_str_def)

lemma ex_render:
  "VisualQueryEditor ex_classify ex_defaultQuery (ex_props a) ex_state
     = (fst (VisualQueryEditor ex_classify ex_defaultQuery (ex_props a) ex_state),
        snd (VisualQueryEditor ex_classify ex_defaultQuery (ex_props a) ex_state))"
  by simp

lemma ex_reachable: "reachable ex_classify ex_defaultQuery ex_state"
  unfolding ex_state_def by (rule reachable_mount)

lemma ex_view_0:
  "fst (VisualQueryEditor ex_classify ex_defaultQuery (ex_props 0) ex_state) =
    \<lparr>v_query = 0, v_fromTable = Some ''metrics'', v_timeColumn = None,
    v_selectedColumns = [''cpu'', ''foobar''],
    v_getAllTables = \<lparr>pid = 0, settled = Inr [''metrics'']\<rparr>,
    v_getColumnSchema = \<lparr>pid = 1, settled = Inr ex_columns\<rparr>,
    v_getTimeColumns = \<lparr>pid = 2, settled = Inr [toOption ''ts'']\<rparr>,
    v_unselectedColumnsSchemas =
      \<lparr>pid = 4, settled = Inr [\<lparr>name = ''ts'', data_type = ''timestamp''\<rparr>]\<rparr>\<rparr>"
  by (simp add: render_defs ex_defs Let_def)

text \<open>
  Claim C9. Whatever the column list resolves to, the empty list included, the time
  column options of a render are the options of the columns whose type
  \<^verbatim>\<open>mapGreptimeTypeToGrafana\<close> classifies as \<^verbatim>\<open>FieldType.time\<close>, in the order of the
  columns, and no other option: the sequence the specification describes. The cached
  promise of \<^verbatim>\<open>getTimeColumns\<close> is never stale, because its dependency is the identity
  of the column promise.
\<close>

theorem getTimeColumns_only_time_columns:
  assumes "reachable m dq s" and "VisualQueryEditor m dq props s = (v, s')"
    and "settled (v_getColumnSchema v) = Inr columns"
  shows "settled (v_getTimeColumns v) = Inr (timeColumnOptions_spec m columns)
    \<and> (columns = [] \<longrightarrow> settled (v_getTimeColumns v) = Inr [])
    \<and> (\<forall>opt. opt \<in> set (timeColumnOptions_spec m columns)
          \<longleftrightarrow> (\<exists>c \<in> set columns. m (data_type c) = FT_time \<and> opt = toOption (name c)))"
proof -
  have "settled (v_getTimeColumns v) = Inr (timeColumnOptions_spec m columns)"
    using render_view(7) [OF reachable_hooks_ok [OF assms(1)] assms(2)] assms(3)
    by (simp add: getTimeColumns_body_def await_def timeColumnOptions_spec_eq)
  moreover have "opt \<in> set (timeColumnOptions_spec m columns)
      \<longleftrightarrow> (\<exists>c \<in> set columns. m (data_type c) = FT_time \<and> opt = toOption (name c))" for opt
    by (auto simp: timeColumnOptions_spec_eq)
  ultimately show ?thesis by simp
qed

theorem getTimeColumns_only_time_columns_witness:
  "reachable ex_classify ex_defaultQuery ex_state
   \<and> settled (v_getColumnSchema (fst (VisualQueryEditor ex_classify ex_defaultQuery (ex_props 0) ex_state)))
       = Inr ex_columns
   \<and> settled (v_getTimeColumns (fst (VisualQueryEditor ex_classify ex_defaultQuery (ex_props 0) ex_state)))
       = Inr [\<lparr>label = Some ''ts'', val = Some ''ts''\<rparr>]"
proof -
  have c: "settled (v_getColumnSchema
      (fst (VisualQueryEditor ex_classify ex_defaultQuery (ex_props 0) ex_state))) = Inr ex_columns"
    by (simp add: ex_view_0)
  show ?thesis
    using getTimeColumns_only_time_columns [OF ex_reachable ex_render c] ex_reachable c
    by (simp add: ex_columns_def ex_classify_def)
qed

text \<open>
  Claim C7. In a render where \<^verbatim>\<open>fromTable\<close> is unset, the column promise is the
  resolved empty list, and both option lists derived from it, the time column options
  and the options of the add button, resolve to the empty list; none of them rejects.
\<close>

theorem no_table_empty_options:
  assumes "reachable m dq s" and "VisualQueryEditor m dq props s = (v, s')"
    and "v_fromTable v = None"
  shows "settled (v_getColumnSchema v) = Inr []
    \<and> settled (v_getTimeColumns v) = Inr []
    \<and> handleLoadUnselectedColumns v = Inr []"
proof -
  note ok = reachable_hooks_ok [OF assms(1)]
  have c: "settled (v_getColumnSchema v) = Inr []"
    using render_view(9) [OF ok assms(2)] assms(3) by simp
  moreover have "settled (v_getTimeColumns v) = Inr []"
    using render_view(7) [OF ok assms(2)] c by (simp add: getTimeColumns_body_def await_def)
  moreover have "handleLoadUnselectedColumns v = Inr []"
    using unselected_options [OF ok assms(2) c] by simp
  ultimately show ?thesis by simp
qed

theorem no_table_empty_options_witness:
  "reachable ex_classify ex_defaultQuery ex_state
   \<and> v_fromTable (fst (VisualQueryEditor ex_classify ex_defaultQuery (ex_props 1) ex_state)) = None
   \<and> settled (v_getTimeColumns (fst (VisualQueryEditor ex_classify ex_defaultQuery (ex_props 1) ex_state)))
       = Inr []
   \<and> handleLoadUnselectedColumns (fst (VisualQueryEditor ex_classify ex_defaultQuery (ex_props 1) ex_state))
       = Inr []"
proof -
  have f: "v_fromTable (fst (VisualQueryEditor ex_classify ex_defaultQuery (ex_props 1) ex_state)) = None"
    by (simp add: render_defs ex_defs Let_def)
  show ?thesis
    using no_table_empty_options [OF ex_reachable ex_render f] ex_reachable f by simp
qed

text \<open>
  Claim C4. Let the column list of a render have resolved to \<open>columns\<close> and let
  \<open>selection\<close> be the selection of the rendered query. The add button is offered,
  in the order of the columns, the option of every column whose name is neither in the
  selection nor the string \<open>foobar\<close>; the picker of an already selected column is
  offered the option whose label and value are the slot's own value \<open>selfVal\<close>,
  followed by exactly that sequence.
\<close>

theorem reselect_is_self_then_unselected:
  assumes "reachable m dq s" and "VisualQueryEditor m dq props s = (v, s')"
    and "settled (v_getColumnSchema v) = Inr columns"
    and "selection = (case selectedColumns (objs s' (query props)) of None \<Rightarrow> [] | Some xs \<Rightarrow> xs)"
    and "opts = map (\<lambda>c. \<lparr>label = Some (name c), val = Some (name c)\<rparr>)
           (filter (\<lambda>c. name c \<notin> set selection \<and> name c \<noteq> ''foobar'') columns)"
  shows "handleLoadUnselectedColumns v = Inr opts
    \<and> handleLoadReselectColumns v selfVal
        = Inr (\<lparr>label = Some selfVal, val = Some selfVal\<rparr> # opts)"
proof -
  note ok = reachable_hooks_ok [OF assms(1)]
  have sel: "v_selectedColumns v = selection @ [''foobar'']"
    using render_view(6) [OF ok assms(2)] assms(4) by (simp add: selectedColumns_of_def)
  have "handleLoadUnselectedColumns v = Inr opts"
    using unselected_options [OF ok assms(2,3)]
    by (simp add: sel assms(5) toOption_def conj_commute)
  then show ?thesis
    by (simp add: handleLoadReselectColumns_def await_def toOption_def)
qed

theorem reselect_is_self_then_unselected_witness:
  "reachable ex_classify ex_defaultQuery ex_state
   \<and> settled (v_getColumnSchema (fst (VisualQueryEditor ex_classify ex_defaultQuery (ex_props 0) ex_state)))
       = Inr ex_columns
   \<and> selectedColumns (objs (snd (VisualQueryEditor ex_classify ex_defaultQuery (ex_props 0) ex_state))
         (query (ex_props 0)))
       = Some [''cpu'']
   \<and> handleLoadUnselectedColumns (fst (VisualQueryEditor ex_classify ex_defaultQuery (ex_props 0) ex_state))
       = Inr [\<lparr>label = Some ''ts'', val = Some ''ts''\<rparr>]
   \<and> handleLoadReselectColumns (fst (VisualQueryEditor ex_classify ex_defaultQuery (ex_props 0) ex_state)) ''cpu''
       = Inr [\<lparr>label = Some ''cpu'', val = Some ''cpu''\<rparr>, \<lparr>label = Some ''ts'', val = Some ''ts''\<rparr>]"
proof -
  have c: "settled (v_getColumnSchema
      (fst (VisualQueryEditor ex_classify ex_defaultQuery (ex_props 0) ex_state))) = Inr ex_columns"
    by (simp add: ex_view_0)
  have q: "selectedColumns (objs (snd (VisualQueryEditor ex_classify ex_defaultQuery (ex_props 0) ex_state))
         (query (ex_props 0))) = Some [''cpu'']"
    using render_view(2) [OF reachable_hooks_ok [OF ex_reachable] ex_render, of 0]
    by (simp add: ex_defs mount_def defaults_fill_def)
  have sel: "[''cpu''] = (case selectedColumns
        (objs (snd (VisualQueryEditor ex_classify ex_defaultQuery (ex_props 0) ex_state))
          (query (ex_props 0))) of None \<Rightarrow> [] | Some xs \<Rightarrow> xs)"
    by (simp add: q)
  have o: "[\<lparr>label = Some ''ts'', val = Some ''ts''\<rparr>]
      = map (\<lambda>c. \<lparr>label = Some (name c), val = Some (name c)\<rparr>)
          (filter (\<lambda>c. name c \<notin> set [''cpu''] \<and> name c \<noteq> ''foobar'') ex_columns)"
    by (simp add: ex_columns_def)
  show ?thesis
    using reselect_is_self_then_unselected [OF ex_reachable ex_render c sel o, of "''cpu''"]
      ex_reachable c q
    by simp
qed

text \<open>
  Claim C10. The filter of \<^verbatim>\<open>unselectedColumnsSchemas\<close> tests the column names against
  \<^verbatim>\<open>selectedColumns\<close>, which ends with the string \<open>foobar\<close> of the add button. So no
  option of the add button, and no option after the first in the picker of a selected
  column, has the value \<open>foobar\<close>, whether or not the query has selected such a column.
\<close>

theorem foobar_column_never_offered:
  assumes "reachable m dq s" and "VisualQueryEditor m dq props s = (v, s')"
    and "settled (v_getColumnSchema v) = Inr columns"
  shows "\<exists>opts ropts. handleLoadUnselectedColumns v = Inr opts
    \<and> handleLoadReselectColumns v selfVal = Inr ropts
    \<and> (\<forall>opt \<in> set opts. val opt \<noteq> Some ''foobar'')
    \<and> (\<forall>opt \<in> set (tl ropts). val opt \<noteq> Some ''foobar'')"
proof -
  note ok = reachable_hooks_ok [OF assms(1)]
  have "last (v_selectedColumns v) = ''foobar''"
    using render_view(6) [OF ok assms(2)] by (simp add: selectedColumns_of_def)
  moreover have "v_selectedColumns v \<noteq> []"
    using render_view(6) [OF ok assms(2)] by (simp add: selectedColumns_of_def)
  ultimately have "''foobar'' \<in> set (v_selectedColumns v)"
    using last_in_set by metis
  then show ?thesis
    using unselected_options [OF ok assms(2,3)]
    by (auto simp: handleLoadReselectColumns_def await_def toOption_def)
qed

theorem foobar_column_never_offered_witness:
  "reachable ex_classify ex_defaultQuery ex_state
   \<and> settled (v_getColumnSchema (fst (VisualQueryEditor ex_classify ex_defaultQuery (ex_props 0) ex_state)))
       = Inr ex_columns
   \<and> ''foobar'' \<in> name ` set ex_columns
   \<and> selectedColumns (objs ex_state 0) = Some [''cpu'']
   \<and> (\<exists>opts ropts.
        handleLoadUnselectedColumns (fst (VisualQueryEditor ex_classify ex_defaultQuery (ex_props 0) ex_state))
          = Inr opts
      \<and> handleLoadReselectColumns (fst (VisualQueryEditor ex_classify ex_defaultQuery (ex_props 0) ex_state)) ''cpu''
          = Inr ropts
      \<and> (\<forall>opt \<in> set opts. val opt \<noteq> Some ''foobar'')
      \<and> (\<forall>opt \<in> set (tl ropts). val opt \<noteq> Some ''foobar''))"
proof -
  have c: "settled (v_getColumnSchema
      (fst (VisualQueryEditor ex_classify ex_defaultQuery (ex_props 0) ex_state))) = Inr ex_columns"
    by (simp add: ex_view_0)
  have n: "''foobar'' \<in> name ` set ex_columns" by (simp add: ex_columns_def)
  have q: "selectedColumns (objs ex_state 0) = Some [''cpu'']"
    by (simp add: ex_state_def mount_def ex_query_def)
  show ?thesis
    using foobar_column_never_offered [OF ex_reachable ex_render c, of "''cpu''"] ex_reachable c n q
    by blast
qed

text \<open>
  Claim C2. The options of the add button leave out every column whose name is in the
  selection, as the specification says, but they also leave out a column named
  \<open>foobar\<close> that the query has not selected. For the table of the example, with only
  \<open>cpu\<close> selected, the specification offers \<open>ts\<close> and \<open>foobar\<close>; the code offers
  \<open>ts\<close> alone.
\<close>

theorem unselected_omits_unselected_foobar:
  "settled (v_getColumnSchema (fst (VisualQueryEditor ex_classify ex_defaultQuery (ex_props 0) ex_state)))
     = Inr ex_columns
   \<and> selectedColumns (objs (snd (VisualQueryEditor ex_classify ex_defaultQuery (ex_props 0) ex_state)) 0)
     = Some [''cpu'']
   \<and> unselectedColumnOptions_spec ex_columns [''cpu''] = [toOption ''ts'', toOption ''foobar'']
   \<and> handleLoadUnselectedColumns (fst (VisualQueryEditor ex_classify ex_defaultQuery (ex_props 0) ex_state))
     = Inr [toOption ''ts'']"
proof -
  have "selectedColumns (objs (snd (VisualQueryEditor ex_classify ex_defaultQuery (ex_props 0) ex_state)) 0)
     = Some [''cpu'']"
    using render_view(2) [OF reachable_hooks_ok [OF ex_reachable] ex_render, of 0]
    by (simp add: ex_defs mount_def defaults_fill_def)
  moreover have "unselectedColumnOptions_spec ex_columns [''cpu''] = [toOption ''ts'', toOption ''foobar'']"
    by (simp add: ex_columns_def toOption_def)
  ultimately show ?thesis
    by (simp add: ex_view_0 handleLoadUnselectedColumns_def await_def)
qed

section \<open>Properties of the query object\<close>

lemma render_query:
  assumes "VisualQueryEditor m dq props s = (v, s')"
  shows "v_query v = query props"
    and "objs s' = (objs s)(query props := defaults_fill (objs s (query props)) dq)"
    and "next_addr s' = next_addr s"
    and "v_selectedColumns v = selectedColumns_of (selectedColumns (objs s' (query props)))"
  using assms
  by (auto simp: render_unfold Let_def unselected_frame new_array_frame getTimeColumns_frame
      getColumnSchema_frame getAllTables_frame defaults_frame)

lemma ex_first_render:
  "VisualQueryEditor ex_classify ex_defaultQuery (ex_props 0) ex_state = (ex_view, ex_rendered)"
  by (simp add: ex_view_def ex_rendered_def)

lemma ex_rendered_facts:
  shows "v_query ex_view = 0"
    and "v_selectedColumns ex_view = [''cpu'', ''foobar'']"
    and "next_addr ex_rendered = 2"
    and "objs ex_rendered 0 = ex_query"
    and "objs ex_rendered (Suc 0) = ex_empty"
proof -
  note q = render_query [OF ex_first_render]
  have o: "objs ex_rendered = (objs ex_state)(0 := defaults_fill (objs ex_state 0) ex_defaultQuery)"
    using q(2) by (simp add: ex_props_def)
  show "v_query ex_view = 0" using q(1) by (simp add: ex_props_def)
  show "next_addr ex_rendered = 2" using q(3) by (simp add: ex_state_def mount_def)
  show 0: "objs ex_rendered 0 = ex_query"
    by (simp add: o ex_state_def mount_def defaults_fill_def ex_query_def ex_defaultQuery_def)
  show "objs ex_rendered (Suc 0) = ex_empty" by (simp add: o ex_state_def mount_def)
  show "v_selectedColumns ex_view = [''cpu'', ''foobar'']"
    using q(4) 0 by (simp add: ex_props_def ex_query_def selectedColumns_of_def)
qed

lemma get_prop_spread_with: "get_prop (spread_with q kv) (key_of kv) = kv"
  by (cases kv) simp_all

lemma get_prop_spread_with_other:
  "k \<noteq> key_of kv \<Longrightarrow> get_prop (spread_with q kv) k = get_prop q k"
  by (cases kv; cases k) simp_all

lemma spread_with_get_prop: "spread_with q (get_prop q k) = q"
  by (cases k) simp_all

lemma changeQueryByKey_objs:
  "objs (snd (changeQueryByKey v kv s))
     = (objs s)(next_addr s := spread_with (objs s (v_query v)) kv)"
  "fst (changeQueryByKey v kv s) = next_addr s"
  "next_addr (snd (changeQueryByKey v kv s)) = Suc (next_addr s)"
  by (simp_all add: changeQueryByKey_def Let_def)

text \<open>
  Claim C5. \<^verbatim>\<open>changeQueryByKey(key, value)\<close> hands \<^verbatim>\<open>onChange\<close> a new object in
  which the property \<open>key\<close> is \<open>value\<close> and every other property is that of
  \<^verbatim>\<open>query\<close>; the object is new, and neither \<^verbatim>\<open>query\<close> nor any other existing object
  is written to; and when \<open>value\<close> is what \<^verbatim>\<open>query[key]\<close> already is, the new object
  has the content of \<^verbatim>\<open>query\<close>. A property that is absent and one that is
  \<^verbatim>\<open>undefined\<close> are the same here, as they are for the editor.
\<close>

theorem changeQueryByKey_sets_one_property:
  assumes "v_query v < next_addr s" and "changeQueryByKey v kv s = (a, s')"
  shows "get_prop (objs s' a) (key_of kv) = kv
    \<and> (\<forall>k. k \<noteq> key_of kv \<longrightarrow> get_prop (objs s' a) k = get_prop (objs s (v_query v)) k)
    \<and> a \<noteq> v_query v
    \<and> (\<forall>b. b < next_addr s \<longrightarrow> objs s' b = objs s b)
    \<and> (kv = get_prop (objs s (v_query v)) (key_of kv) \<longrightarrow> objs s' a = objs s (v_query v))"
proof -
  have a: "a = next_addr s" and o: "objs s' = (objs s)(a := spread_with (objs s (v_query v)) kv)"
    using assms(2) changeQueryByKey_objs(1,2) [of v kv s] by simp_all
  have "kv = get_prop (objs s (v_query v)) (key_of kv) \<Longrightarrow> objs s' a = objs s (v_query v)"
    using spread_with_get_prop [of "objs s (v_query v)" "key_of kv"] by (simp add: o)
  then show ?thesis
    using assms(1) by (auto simp: a o get_prop_spread_with get_prop_spread_with_other)
qed

theorem changeQueryByKey_sets_one_property_witness:
  "v_query ex_view < next_addr ex_rendered
   \<and> changeQueryByKey ex_view (TimeColumn (Some ''ts'')) ex_rendered
       = (2, snd (changeQueryByKey ex_view (TimeColumn (Some ''ts'')) ex_rendered))
   \<and> objs (snd (changeQueryByKey ex_view (TimeColumn (Some ''ts'')) ex_rendered)) 2
       = ex_query\<lparr>timeColumn := Some ''ts''\<rparr>
   \<and> objs (snd (changeQueryByKey ex_view (TimeColumn (Some ''ts'')) ex_rendered)) 0 = ex_query"
proof -
  have h: "v_query ex_view < next_addr ex_rendered"
    by (simp add: ex_rendered_facts)
  have r: "changeQueryByKey ex_view (TimeColumn (Some ''ts'')) ex_rendered
       = (2, snd (changeQueryByKey ex_view (TimeColumn (Some ''ts'')) ex_rendered))"
    by (simp add: changeQueryByKey_def Let_def ex_rendered_facts)
  have q: "get_prop (objs ex_rendered 0) k = get_prop ex_query k" for k
    by (simp add: ex_rendered_facts)
  show ?thesis
    using changeQueryByKey_sets_one_property [OF h r] h r
    by (simp add: changeQueryByKey_def Let_def ex_rendered_facts)
qed

text \<open>
  Claim C1, as the code has it. Choosing a name in the picker of an already selected
  column commits nothing: the handler of that segment is empty, \<^verbatim>\<open>onChange\<close> of the
  props is not called, the state is unchanged, and the query the host holds afterwards
  has the selection it had, entry for entry.
\<close>

theorem segment_onChange_commits_nothing:
  "segment_onChange v idx select s = (None, s)
   \<and> selectedColumns (objs (snd (segment_onChange v idx select s))
        (query_after (v_query v) (fst (segment_onChange v idx select s))))
     = selectedColumns (objs s (v_query v))"
  by (simp add: segment_onChange_def query_after_def)

text \<open>
  The claim C1 as the specification states it fails: with \<open>cpu\<close> selected, choosing
  \<open>ts\<close> in slot 0 leaves the selection \<open>[cpu]\<close>, not \<open>[ts]\<close>.
\<close>

theorem replace_does_not_swap_counterexample:
  "selectedColumns (objs ex_rendered (v_query ex_view)) = Some [''cpu'']
   \<and> selectedColumns (objs (snd (segment_onChange ex_view 0 (toOption ''ts'') ex_rendered))
        (query_after (v_query ex_view) (fst (segment_onChange ex_view 0 (toOption ''ts'') ex_rendered))))
     \<noteq> Some ([''cpu''][0 := ''ts''])"
  by (simp add: segment_onChange_def query_after_def ex_rendered_facts ex_query_def)

lemma slice_0_m1_snoc: "slice_0_m1 (xs @ [x]) = xs"
  by (simp add: slice_0_m1_def)

lemma offered_not_selected:
  assumes "hooks_ok m s" and "VisualQueryEditor m dq props s = (v, s')"
    and "settled (v_getColumnSchema v) = Inr columns"
    and "handleLoadUnselectedColumns v = Inr opts" and "select \<in> set opts"
  shows "\<exists>x. val select = Some x \<and> \<not> includes_str (v_selectedColumns v) x"
  using unselected_options [OF assms(1-3)] assms(4,5)
  by (auto simp: includes_str_def toOption_def)

text \<open>
  Claim C3. Choosing a name in the add slot makes \<^verbatim>\<open>handleAddColumn\<close> commit a new
  query whose selection is the old one followed by the new name, the other properties
  being those of the old query. Let the name be one that \<^verbatim>\<open>selectedColumns\<close>, the
  list the options of the slot are filtered against, does not include: then the
  committed selection has no duplicate if the old one had none, and does not contain
  \<open>foobar\<close> if the old one did not, which is the invariant of the data model.
\<close>

theorem handleAddColumn_appends:
  assumes "VisualQueryEditor m dq props s = (v, s1)"
    and "prev = (case selectedColumns (objs s1 (query props)) of None \<Rightarrow> [] | Some xs \<Rightarrow> xs)"
    and "val select = Some x"
  shows "\<exists>a s2. handleAddColumn v select s1 = Inr (a, s2)
    \<and> selectedColumns (objs s2 a) = Some (prev @ [x])
    \<and> fromTable (objs s2 a) = fromTable (objs s1 (query props))
    \<and> timeColumn (objs s2 a) = timeColumn (objs s1 (query props))
    \<and> others (objs s2 a) = others (objs s1 (query props))
    \<and> (distinct prev \<and> \<not> includes_str (v_selectedColumns v) x \<longrightarrow> distinct (prev @ [x]))
    \<and> (''foobar'' \<notin> set prev \<and> \<not> includes_str (v_selectedColumns v) x
         \<longrightarrow> ''foobar'' \<notin> set (prev @ [x]))"
proof -
  have sel: "v_selectedColumns v = prev @ [''foobar'']"
    using render_query(4) [OF assms(1)] assms(2) by (simp add: selectedColumns_of_def)
  have q: "v_query v = query props" using render_query(1) [OF assms(1)] .
  have "distinct (prev @ [x])" if "distinct prev" and "\<not> includes_str (v_selectedColumns v) x"
    using that by (simp add: sel includes_str_def)
  moreover have "''foobar'' \<notin> set (prev @ [x])"
    if "''foobar'' \<notin> set prev" and "\<not> includes_str (v_selectedColumns v) x"
    using that by (auto simp: sel includes_str_def)
  ultimately show ?thesis
    using assms(3)
    by (simp add: handleAddColumn_def Let_def sel slice_0_m1_snoc changeQueryByKey_def q)
qed

theorem handleAddColumn_appends_witness:
  "selectedColumns (objs ex_rendered (query (ex_props 0))) = Some [''cpu'']
   \<and> val (toOption ''ts'') = Some ''ts''
   \<and> \<not> includes_str (v_selectedColumns ex_view) ''ts''
   \<and> distinct [''cpu''] \<and> ''foobar'' \<notin> set [''cpu'']
   \<and> (\<exists>a s2. handleAddColumn ex_view (toOption ''ts'') ex_rendered = Inr (a, s2)
        \<and> selectedColumns (objs s2 a) = Some [''cpu'', ''ts'']
        \<and> distinct [''cpu'', ''ts''] \<and> ''foobar'' \<notin> set [''cpu'', ''ts''])"
proof -
  have p: "[''cpu''] = (case selectedColumns (objs ex_rendered (query (ex_props 0))) of
        None \<Rightarrow> [] | Some xs \<Rightarrow> xs)"
    by (simp add: ex_props_def ex_rendered_facts ex_query_def)
  have v: "val (toOption ''ts'') = Some ''ts''" by (simp add: toOption_def)
  have i: "\<not> includes_str (v_selectedColumns ex_view) ''ts''"
    by (simp add: includes_str_def ex_rendered_facts)
  have q: "selectedColumns (objs ex_rendered (query (ex_props 0))) = Some [''cpu'']"
    by (simp add: ex_props_def ex_rendered_facts ex_query_def)
  show ?thesis
    using handleAddColumn_appends [OF ex_first_render p v] q v i by auto
qed

section \<open>Properties of the schema cache\<close>

lemma hooks_ok_store:
  "hooks_ok m (s\<lparr>objs := h, next_addr := n\<rparr>) = hooks_ok m s"
  by (simp add: hooks_ok_def cong: option.case_cong prod.case_cong)

lemma render_fromTable:
  assumes "VisualQueryEditor m dq props s = (v, s')"
  shows "v_fromTable v = fromTable (defaults_fill (objs s (query props)) dq)"
  using assms by (auto simp: render_unfold Let_def defaults_frame)

text \<open>
  Claim C8. Take two renders in a row, the store of query objects changing in any way
  in between. If the client is the same object, the second render returns the very
  promise of the table list that the first returned; if moreover \<^verbatim>\<open>fromTable\<close> is
  the same, it returns the very promise of the column list, and issues no request to
  the backend. If the client differs, the table promise is a new one and takes the
  place of the old in its cell; if the client or \<^verbatim>\<open>fromTable\<close> differs, so does the
  column promise. A promise that was rejected is kept like any other: with the key
  unchanged the second render returns it, still rejected, and asks the backend nothing.
\<close>

theorem schema_cache_reuses_until_key_changes:
  assumes "reachable m dq s"
    and "VisualQueryEditor m dq props1 s = (v1, s1)"
    and "VisualQueryEditor m dq props2 (s1\<lparr>objs := h, next_addr := n\<rparr>) = (v2, s2)"
    and "c1 = client_id (client (datasource props1))"
    and "c2 = client_id (client (datasource props2))"
  shows "(c2 = c1 \<longrightarrow> v_getAllTables v2 = v_getAllTables v1)
    \<and> (c2 = c1 \<and> v_fromTable v2 = v_fromTable v1
         \<longrightarrow> v_getColumnSchema v2 = v_getColumnSchema v1 \<and> requests s2 = requests s1)
    \<and> (c2 \<noteq> c1
         \<longrightarrow> pid (v_getAllTables v2) \<noteq> pid (v_getAllTables v1)
           \<and> h_getAllTables s2 = Some (c2, v_getAllTables v2))
    \<and> (c2 \<noteq> c1 \<or> v_fromTable v2 \<noteq> v_fromTable v1
         \<longrightarrow> pid (v_getColumnSchema v2) \<noteq> pid (v_getColumnSchema v1)
           \<and> h_getColumnSchema s2 = Some ((c2, v_fromTable v2), v_getColumnSchema v2))
    \<and> (\<forall>e. c2 = c1 \<and> settled (v_getAllTables v1) = Inl e
         \<longrightarrow> settled (v_getAllTables v2) = Inl e)
    \<and> (\<forall>e. c2 = c1 \<and> v_fromTable v2 = v_fromTable v1 \<and> settled (v_getColumnSchema v1) = Inl e
         \<longrightarrow> settled (v_getColumnSchema v2) = Inl e \<and> requests s2 = requests s1)"
proof -
  define t where "t = s1\<lparr>objs := h, next_addr := n\<rparr>"
  have ok: "hooks_ok m t"
    using hooks_ok_render [OF reachable_hooks_ok [OF assms(1)], of dq props1] assms(2)
    by (simp add: t_def hooks_ok_store)
  have cellT: "h_getAllTables t = Some (c1, v_getAllTables v1)"
    and cellC: "h_getColumnSchema t = Some ((c1, v_fromTable v1), v_getColumnSchema v1)"
    using render_cells [OF assms(2)] by (simp_all add: t_def assms(4))
  have r2: "VisualQueryEditor m dq props2 t = (v2, s2)"
    using assms(3) by (simp add: t_def)
  have req: "requests t = requests s1" by (simp add: t_def)
  have tables_same: "v_getAllTables v2 = v_getAllTables v1" if "c2 = c1"
    using render_tables_hit [OF _ r2] cellT that by (simp add: assms(5))
  have columns_same: "v_getColumnSchema v2 = v_getColumnSchema v1"
    and requests_same: "requests s2 = requests s1"
    if "c2 = c1" and "v_fromTable v2 = v_fromTable v1"
    using render_columns_hit [OF _ r2] render_requests_hit [OF _ _ r2] cellT cellC that req
    by (simp_all add: assms(5))
  have tables_new: "pid (v_getAllTables v2) \<noteq> pid (v_getAllTables v1)" if "c2 \<noteq> c1"
    using render_tables_miss [OF ok cellT _ r2] that by (simp add: assms(5))
  have columns_new: "pid (v_getColumnSchema v2) \<noteq> pid (v_getColumnSchema v1)"
    if "c2 \<noteq> c1 \<or> v_fromTable v2 \<noteq> v_fromTable v1"
    using render_columns_miss [OF ok cellC _ r2] that by (auto simp: assms(5))
  show ?thesis
    using tables_same columns_same requests_same tables_new columns_new render_cells [OF r2]
    by (auto simp: assms(5))
qed

theorem schema_cache_reuses_until_key_changes_witness:
  "reachable ex_classify ex_defaultQuery ex_state
   \<and> v_getAllTables (fst (VisualQueryEditor ex_classify ex_defaultQuery (ex_props 0) ex_rendered))
       = v_getAllTables ex_view
   \<and> v_getColumnSchema (fst (VisualQueryEditor ex_classify ex_defaultQuery (ex_props 0) ex_rendered))
       = v_getColumnSchema ex_view
   \<and> requests (snd (VisualQueryEditor ex_classify ex_defaultQuery (ex_props 0) ex_rendered))
       = requests ex_rendered
   \<and> pid (v_getColumnSchema (fst (VisualQueryEditor ex_classify ex_defaultQuery (ex_props (Suc 0)) ex_rendered)))
       \<noteq> pid (v_getColumnSchema ex_view)
   \<and> reachable ex_classify ex_defaultQuery ex_state_logs
   \<and> settled (v_getColumnSchema (fst (VisualQueryEditor ex_classify ex_defaultQuery (ex_props 0) ex_state_logs)))
       = Inl (Rejected ''no such table'')
   \<and> settled (v_getColumnSchema (fst (VisualQueryEditor ex_classify ex_defaultQuery (ex_props 0)
         (snd (VisualQueryEditor ex_classify ex_defaultQuery (ex_props 0) ex_state_logs)))))
       = Inl (Rejected ''no such table'')
   \<and> requests (snd (VisualQueryEditor ex_classify ex_defaultQuery (ex_props 0)
         (snd (VisualQueryEditor ex_classify ex_defaultQuery (ex_props 0) ex_state_logs))))
       = requests (snd (VisualQueryEditor ex_classify ex_defaultQuery (ex_props 0) ex_state_logs))"
proof -
  let ?r = "\<lambda>a s. VisualQueryEditor ex_classify ex_defaultQuery (ex_props a) s"
  have pair: "?r a s = (fst (?r a s), snd (?r a s))" for a and s :: "(string, unit) state"
    by simp
  have pair': "?r a (s\<lparr>objs := objs s, next_addr := next_addr s\<rparr>) = (fst (?r a s), snd (?r a s))"
    for a and s :: "(string, unit) state"
    by simp
  have f1: "v_fromTable ex_view = Some ''metrics''"
    using render_fromTable [OF ex_first_render]
    by (simp add: ex_props_def ex_state_def mount_def ex_query_def defaults_fill_def)
  have f2: "v_fromTable (fst (?r 0 ex_rendered)) = Some ''metrics''"
    using render_fromTable [OF pair, of 0 ex_rendered]
    by (simp add: ex_props_def ex_rendered_facts ex_query_def defaults_fill_def)
  have f3: "v_fromTable (fst (?r (Suc 0) ex_rendered)) = None"
    using render_fromTable [OF pair, of "Suc 0" ex_rendered]
    by (simp add: ex_props_def ex_rendered_facts ex_empty_def ex_defaultQuery_def defaults_fill_def)
  have l: "reachable ex_classify ex_defaultQuery ex_state_logs"
    unfolding ex_state_logs_def by (rule reachable_mount)
  have f4: "settled (v_getColumnSchema (fst (?r 0 ex_state_logs))) = Inl (Rejected ''no such table'')"
    "v_fromTable (fst (?r 0 ex_state_logs)) = Some ''logs''"
    by (simp_all add: render_defs ex_defs ex_state_logs_def Let_def)
  have f5: "v_fromTable (fst (?r 0 (snd (?r 0 ex_state_logs)))) = Some ''logs''"
    using render_fromTable [OF pair, of 0 "snd (?r 0 ex_state_logs)"]
      render_query(2) [OF pair, of 0 ex_state_logs]
    by (simp add: ex_props_def ex_state_logs_def mount_def ex_query_def defaults_fill_def)
  note same = schema_cache_reuses_until_key_changes
      [OF ex_reachable ex_first_render pair' refl refl, of 0]
  note changed = schema_cache_reuses_until_key_changes
      [OF ex_reachable ex_first_render pair' refl refl, of "Suc 0"]
  note failed = schema_cache_reuses_until_key_changes [OF l pair pair' refl refl, of 0 0]
  have a: "v_getAllTables (fst (?r 0 ex_rendered)) = v_getAllTables ex_view"
    and b: "v_getColumnSchema (fst (?r 0 ex_rendered)) = v_getColumnSchema ex_view"
    and c: "requests (snd (?r 0 ex_rendered)) = requests ex_rendered"
    using same f1 f2 by (simp_all add: ex_props_def)
  have d: "pid (v_getColumnSchema (fst (?r (Suc 0) ex_rendered))) \<noteq> pid (v_getColumnSchema ex_view)"
    using changed f1 f3 by simp
  have e: "settled (v_getColumnSchema (fst (?r 0 (snd (?r 0 ex_state_logs)))))
       = Inl (Rejected ''no such table'')"
    and g: "requests (snd (?r 0 (snd (?r 0 ex_state_logs)))) = requests (snd (?r 0 ex_state_logs))"
    using failed f4 f5 by simp_all
  show ?thesis
    using ex_reachable a b c d l f4(1) e g by simp
qed

end
